theory Spec2Isabelle
  imports Complex_Main
begin

section \<open>JavaScript numbers\<close>

text \<open>
  A JavaScript \<open>number\<close> is an IEEE 754 binary64 value: a finite number, one of the two
  infinities, or \<open>NaN\<close>. A finite number is given by the real it denotes; the two zeros
  are not distinguished.
\<close>

datatype number = Num real | PInf | NInf | NaN

text \<open>
  Rounding to binary64, to nearest with ties to even. \<open>rne\<close> rounds a real to an integer,
  \<open>ulp_exponent x\<close> is the exponent of the last place of the 53-bit significand of \<open>x\<close>
  (not below that of the subnormal numbers), and \<open>round64\<close> rounds to a multiple of that
  power of two. \<open>fl\<close> is the result of an operation whose exact value is \<open>x\<close>: the
  rounded value, or an infinity on overflow.
\<close>

definition rne :: "real \<Rightarrow> int" where
  "rne x =
     (let f = \<lfloor>x\<rfloor>; r = x - of_int f
      in if r < 1 / 2 then f else if 1 / 2 < r then f + 1 else if even f then f else f + 1)"

definition ulp_exponent :: "real \<Rightarrow> int" where
  "ulp_exponent x = max (\<lfloor>log 2 \<bar>x\<bar>\<rfloor> - 52) (- 1074)"

definition round64 :: "real \<Rightarrow> real" where
  "round64 x =
     (if x = 0 then 0
      else of_int (rne (x / 2 powi ulp_exponent x)) * 2 powi ulp_exponent x)"

definition fl :: "real \<Rightarrow> number" where
  "fl x =
     (let y = round64 x
      in if 2 ^ 1024 \<le> y then PInf else if y \<le> - (2 ^ 1024) then NInf else Num y)"

text \<open>The reals that are binary64 values.\<close>

definition binary64 :: "real \<Rightarrow> bool" where
  "binary64 x = (fl x = Num x)"

text \<open>The operators \<open>+\<close>, \<open>-\<close>, \<open>*\<close>, \<open><=\<close>, \<open><\<close> and \<open>>\<close> on numbers.\<close>

fun num_add :: "number \<Rightarrow> number \<Rightarrow> number" where
  "num_add (Num x) (Num y) = fl (x + y)"
| "num_add NaN _ = NaN"
| "num_add _ NaN = NaN"
| "num_add PInf NInf = NaN"
| "num_add NInf PInf = NaN"
| "num_add PInf _ = PInf"
| "num_add _ PInf = PInf"
| "num_add NInf _ = NInf"
| "num_add _ NInf = NInf"

fun num_sub :: "number \<Rightarrow> number \<Rightarrow> number" where
  "num_sub (Num x) (Num y) = fl (x - y)"
| "num_sub NaN _ = NaN"
| "num_sub _ NaN = NaN"
| "num_sub PInf PInf = NaN"
| "num_sub NInf NInf = NaN"
| "num_sub PInf _ = PInf"
| "num_sub _ PInf = NInf"
| "num_sub NInf _ = NInf"
| "num_sub _ NInf = PInf"

fun num_mul :: "number \<Rightarrow> number \<Rightarrow> number" where
  "num_mul (Num x) (Num y) = fl (x * y)"
| "num_mul NaN _ = NaN"
| "num_mul _ NaN = NaN"
| "num_mul PInf (Num y) = (if y = 0 then NaN else if 0 < y then PInf else NInf)"
| "num_mul NInf (Num y) = (if y = 0 then NaN else if 0 < y then NInf else PInf)"
| "num_mul (Num x) PInf = (if x = 0 then NaN else if 0 < x then PInf else NInf)"
| "num_mul (Num x) NInf = (if x = 0 then NaN else if 0 < x then NInf else PInf)"
| "num_mul PInf PInf = PInf"
| "num_mul PInf NInf = NInf"
| "num_mul NInf PInf = NInf"
| "num_mul NInf NInf = PInf"

fun num_le :: "number \<Rightarrow> number \<Rightarrow> bool" where
  "num_le (Num x) (Num y) = (x \<le> y)"
| "num_le NaN _ = False"
| "num_le _ NaN = False"
| "num_le NInf _ = True"
| "num_le _ PInf = True"
| "num_le _ _ = False"



text \<open>
  \<open>Math.round\<close>: the integer closest to the argument, the one closer to plus infinity
  when two are equally close; the infinities and \<open>NaN\<close> are returned as they are.
  \<open>Math.max\<close> of two numbers is \<open>NaN\<close> when one of them is.
\<close>

fun Math_round :: "number \<Rightarrow> number" where
  "Math_round (Num x) = Num (of_int \<lfloor>x + 1 / 2\<rfloor>)"
| "Math_round v = v"


text \<open>
  The idiom \<open>parseFloat(value) || 0\<close> of the input handlers, applied to the outcome of
  \<open>parseFloat\<close>: \<open>NaN\<close> and \<open>0\<close> are falsy and give \<open>0\<close>; an infinity is kept.
\<close>

definition or_zero :: "number \<Rightarrow> number" where
  "or_zero v = (if v = NaN then Num 0 else v)"

section \<open>Tariff configuration\<close>

text \<open>
  The value of a property of a settings object at run time. TypeScript types it
  \<open>number\<close>, but a parsed object can hold \<open>null\<close> (which is what \<open>JSON.stringify\<close>
  writes for a number that is not finite) or lack the property. In arithmetic and in
  comparisons \<open>null\<close> counts as 0 and \<open>undefined\<close> as \<open>NaN\<close>. Properties that
  hold a string, a boolean or an object are not modelled.
\<close>

datatype field = Number number | Null | Undefined

fun ToNumber :: "field \<Rightarrow> number" where
  "ToNumber (Number v) = v"
| "ToNumber Null = Num 0"
| "ToNumber Undefined = NaN"

record FareSettings =
  baseFare :: field
  baseDistance :: field
  ratePerKm :: field

definition DEFAULT_MIN_CHARGE :: number where
  "DEFAULT_MIN_CHARGE = Num 30"

definition DEFAULT_BASE_DISTANCE :: number where
  "DEFAULT_BASE_DISTANCE = Num (15 / 10)"

definition DEFAULT_RATE_PER_KM :: number where
  "DEFAULT_RATE_PER_KM = Num 15"

definition NIGHT_SURCHARGE :: number where
  "NIGHT_SURCHARGE = Num (5 / 10)"

definition DEFAULT_SETTINGS :: FareSettings where
  "DEFAULT_SETTINGS =
     \<lparr>baseFare = Number DEFAULT_MIN_CHARGE, baseDistance = Number DEFAULT_BASE_DISTANCE,
      ratePerKm = Number DEFAULT_RATE_PER_KM\<rparr>"

section \<open>Night window\<close>

text \<open>\<open>isNightTime\<close>, as a function of the hour that \<open>new Date().getHours()\<close> returns.\<close>

definition isNightTime :: "nat \<Rightarrow> bool" where
  "isNightTime hour = (hour \<ge> 22 \<or> hour < 5)"

section \<open>Fare engine\<close>

datatype js_error =
  TypeError | StorageFailure | JsonSyntaxError | PermissionNotGranted | PositionUnavailable

text \<open>
  \<open>_calculateFareInternal\<close> of the hook \<open>useFareCalculator\<close>. The first argument is the
  hook's own \<open>fareSettings\<close> state, used when the parameter \<open>settings\<close> is omitted or
  \<open>null\<close> (\<open>settings || fareSettings\<close>); \<open>None\<close> stands for \<open>null\<close> and for an
  omitted argument. Reading a property of \<open>null\<close> throws a \<open>TypeError\<close>.
\<close>

definition calculateFareInternal ::
  "FareSettings option \<Rightarrow> number \<Rightarrow> bool \<Rightarrow> FareSettings option \<Rightarrow> js_error + number" where
  "calculateFareInternal hookSettings distanceKm isNightActive settings =
     (case (case settings of Some s \<Rightarrow> Some s | None \<Rightarrow> hookSettings) of
        None \<Rightarrow> Inl TypeError
      | Some currentSettings \<Rightarrow>
          (let fare0 =
                 (if num_le distanceKm (ToNumber (baseDistance currentSettings))
                  then ToNumber (baseFare currentSettings)
                  else num_add (ToNumber (baseFare currentSettings))
                         (num_mul (ToNumber (ratePerKm currentSettings))
                            (num_sub distanceKm (ToNumber (baseDistance currentSettings)))));
               fare1 =
                 (if isNightActive then num_mul fare0 (num_add (Num 1) NIGHT_SURCHARGE)
                  else fare0)
           in Inr (Math_round fare1)))"

section \<open>Persisted configuration\<close>

text \<open>
  The text kept under a key of \<open>AsyncStorage\<close>, by what the loaders do with it: the empty
  text (falsy in \<open>if (savedSettings)\<close>), a text on which \<open>JSON.parse\<close> throws, or a
  JSON text, given by the value \<open>JSON.parse\<close> returns for it: \<open>null\<close> or an object
  with its three properties. Texts that parse to a number, a string, a boolean or an array
  are not modelled.
\<close>

datatype stored_text = Empty_text | Malformed_text | Json_text "FareSettings option"

text \<open>
  The key-value store. Its operations are promises that may reject; \<open>failing\<close> says that
  they do.
\<close>

record AsyncStorage =
  items :: "string \<rightharpoonup> stored_text"
  failing :: bool

definition getItem :: "AsyncStorage \<Rightarrow> string \<Rightarrow> js_error + stored_text option" where
  "getItem st k = (if failing st then Inl StorageFailure else Inr (items st k))"


fun JSON_parse :: "stored_text \<Rightarrow> js_error + FareSettings option" where
  "JSON_parse (Json_text v) = Inr v"
| "JSON_parse _ = Inl JsonSyntaxError"



text \<open>
  \<open>loadFareSettings\<close> of the fare hook: the parsed item when there is a non-empty one, the
  defaults when there is none or when reading or parsing throws (the error is logged). The
  parsed value is returned unchecked.
\<close>

definition loadFareSettings :: "AsyncStorage \<Rightarrow> FareSettings option" where
  "loadFareSettings st =
     (let defaults = Some \<lparr>baseFare = Number DEFAULT_MIN_CHARGE,
                            baseDistance = Number DEFAULT_BASE_DISTANCE,
                            ratePerKm = Number DEFAULT_RATE_PER_KM\<rparr>
      in case getItem st ''fareSettings'' of
           Inl e \<Rightarrow> defaults
         | Inr None \<Rightarrow> defaults
         | Inr (Some savedSettings) \<Rightarrow>
             (if savedSettings = Empty_text then defaults
              else case JSON_parse savedSettings of
                     Inl e \<Rightarrow> defaults
                   | Inr parsed \<Rightarrow> parsed))"

text \<open>The state of the hook \<open>useFareCalculator\<close>.\<close>

record FareCalculator =
  distance :: number
  fare :: number
  isNight :: bool
  fareSettings :: "FareSettings option"

definition calculateFareForDistance ::
  "AsyncStorage \<Rightarrow> FareCalculator \<Rightarrow> number \<Rightarrow> bool \<Rightarrow> js_error + number" where
  "calculateFareForDistance st h distanceKm isNightActive =
     calculateFareInternal (fareSettings h) distanceKm isNightActive (loadFareSettings st)"

text \<open>
  \<open>updateDistance\<close>; the second argument is the hour read from the clock. When the fare
  computation throws, the three earlier state updates have been made and the fare is not
  set.
\<close>

definition updateDistance ::
  "AsyncStorage \<Rightarrow> nat \<Rightarrow> FareCalculator \<Rightarrow> number \<Rightarrow> FareCalculator \<times> js_error option" where
  "updateDistance st hour h newDistance =
     (let loaded = loadFareSettings st;
          currentIsNight = isNightTime hour;
          h1 = h\<lparr>fareSettings := loaded, isNight := currentIsNight, distance := newDistance\<rparr>
      in case calculateFareInternal (fareSettings h) newDistance currentIsNight loaded of
           Inl e \<Rightarrow> (h1, Some e)
         | Inr newFare \<Rightarrow> (h1\<lparr>fare := newFare\<rparr>, None))"

definition resetMeter :: "FareCalculator \<Rightarrow> FareCalculator" where
  "resetMeter h = h\<lparr>distance := Num 0, fare := Num 0, isNight := False\<rparr>"

subsection \<open>The settings screen\<close>

record SettingsScreen =
  settings :: FareSettings
  tempSettings :: FareSettings
  hasChanges :: bool
  isLoading :: bool



text \<open>The input handlers of the settings screen, applied to the outcome of \<open>parseFloat\<close>.\<close>

definition updateBaseFare :: "number \<Rightarrow> SettingsScreen \<Rightarrow> SettingsScreen" where
  "updateBaseFare v scr =
     scr\<lparr>tempSettings := (tempSettings scr)\<lparr>baseFare := Number (or_zero v)\<rparr>\<rparr>"

definition updateBaseDistance :: "number \<Rightarrow> SettingsScreen \<Rightarrow> SettingsScreen" where
  "updateBaseDistance v scr =
     scr\<lparr>tempSettings := (tempSettings scr)\<lparr>baseDistance := Number (or_zero v)\<rparr>\<rparr>"

definition updateRatePerKm :: "number \<Rightarrow> SettingsScreen \<Rightarrow> SettingsScreen" where
  "updateRatePerKm v scr =
     scr\<lparr>tempSettings := (tempSettings scr)\<lparr>ratePerKm := Number (or_zero v)\<rparr>\<rparr>"

section \<open>Location tracking\<close>

text \<open>
  The arithmetic of the tracker is taken exact, on the reals: the platform's \<open>Math.sin\<close>,
  \<open>Math.cos\<close>, \<open>Math.sqrt\<close> and \<open>Math.atan2\<close> are implementation-approximated, so
  the distance has no bit-exact model. \<open>Math.sqrt\<close> is \<open>NaN\<close> on a negative argument.
  \<open>Math.atan2(y, x)\<close> is the angle of the point \<open>(x, y)\<close>.
\<close>

definition Math_sqrt :: "real \<Rightarrow> number" where
  "Math_sqrt x = (if x < 0 then NaN else Num (sqrt x))"

definition Math_atan2 :: "real \<Rightarrow> real \<Rightarrow> real" where
  "Math_atan2 y x =
     (if 0 < x then arctan (y / x)
      else if x < 0 then (if 0 \<le> y then arctan (y / x) + pi else arctan (y / x) - pi)
      else if 0 < y then pi / 2
      else if y < 0 then - (pi / 2)
      else 0)"

text \<open>\<open>calculateDistance\<close> of the hook \<open>useLocationTracking\<close>; degrees in, kilometres out.\<close>

definition calculateDistance :: "real \<Rightarrow> real \<Rightarrow> real \<Rightarrow> real \<Rightarrow> number" where
  "calculateDistance lat1 lon1 lat2 lon2 =
     (let R = 6371;
          dLat = (lat2 - lat1) * pi / 180;
          dLon = (lon2 - lon1) * pi / 180;
          a = sin (dLat / 2) * sin (dLat / 2)
              + cos (lat1 * pi / 180) * cos (lat2 * pi / 180) * sin (dLon / 2) * sin (dLon / 2);
          c = (case (Math_sqrt a, Math_sqrt (1 - a)) of
                 (Num y, Num x) \<Rightarrow> Num (2 * Math_atan2 y x)
               | _ \<Rightarrow> NaN)
      in case c of Num v \<Rightarrow> Num (R * v) | _ \<Rightarrow> NaN)"

text \<open>
  A \<open>LocationObject\<close>, with the fields the tracker reads; the other coordinates
  (altitude, accuracy, heading, speed) are carried along unread.
\<close>

record LocationObjectCoords =
  latitude :: real
  longitude :: real

record LocationObject =
  coords :: LocationObjectCoords
  timestamp :: real

text \<open>
  The two position sources: Expo Location (native) and the browser's geolocation (web).
  Their watch callbacks differ in the lower bound of an accepted delta, \<open>0.01\<close> and
  \<open>0.001\<close> km.
\<close>

datatype platform = Native | Web

fun minDelta :: "platform \<Rightarrow> real" where
  "minDelta Native = 1 / 100"
| "minDelta Web = 1 / 1000"

text \<open>The state of the hook: its three state cells and its two refs.\<close>

record LocationTracking =
  currentLocation :: "LocationObject option"
  distanceTraveled :: real
  isTracking :: bool
  lastLocationRef :: "LocationObject option"
  watcherRef :: "platform option"

text \<open>
  The callback given to \<open>watchPositionAsync\<close> and to \<open>watchPosition\<close>. A distance
  that is not a finite number fails a comparison of the filter.
\<close>

definition watchCallback :: "platform \<Rightarrow> LocationTracking \<Rightarrow> LocationObject \<Rightarrow> LocationTracking" where
  "watchCallback p tr location =
     (let tr1 = tr\<lparr>currentLocation := Some location\<rparr>;
          tr2 =
            (case lastLocationRef tr1 of
               None \<Rightarrow> tr1
             | Some lastLocation \<Rightarrow>
                 (case calculateDistance (latitude (coords lastLocation)) (longitude (coords lastLocation))
                         (latitude (coords location)) (longitude (coords location)) of
                    Num d \<Rightarrow>
                      (if d > minDelta p \<and> d < 1
                       then tr1\<lparr>distanceTraveled := distanceTraveled tr1 + d\<rparr>
                       else tr1)
                  | _ \<Rightarrow> tr1))
      in tr2\<lparr>lastLocationRef := Some location\<rparr>)"

text \<open>
  What the position source answers when tracking starts: permission refused, no fix, or
  the initial location.
\<close>

datatype position_outcome = Permission_denied | Position_error | Position LocationObject

text \<open>
  \<open>startTracking\<close>: the new state and the error thrown, if any (the earlier version of
  the hook logs the error and does not throw it again; the state is the same).
\<close>

definition startTracking ::
  "platform \<Rightarrow> position_outcome \<Rightarrow> LocationTracking \<Rightarrow> LocationTracking \<times> js_error option" where
  "startTracking p outcome tr =
     (case outcome of
        Permission_denied \<Rightarrow> (tr\<lparr>isTracking := False\<rparr>, Some PermissionNotGranted)
      | Position_error \<Rightarrow> (tr\<lparr>isTracking := False\<rparr>, Some PositionUnavailable)
      | Position initialLocation \<Rightarrow>
          (tr\<lparr>currentLocation := Some initialLocation, lastLocationRef := Some initialLocation,
              isTracking := True, distanceTraveled := 0, watcherRef := Some p\<rparr>, None))"

definition stopTracking :: "LocationTracking \<Rightarrow> LocationTracking" where
  "stopTracking tr = tr\<lparr>watcherRef := None, isTracking := False\<rparr>"

definition resetTracking :: "LocationTracking \<Rightarrow> LocationTracking" where
  "resetTracking tr = tr\<lparr>distanceTraveled := 0, currentLocation := None, lastLocationRef := None\<rparr>"

text \<open>The samples of a tracking session, delivered to the callback in order.\<close>

fun feed :: "platform \<Rightarrow> LocationTracking \<Rightarrow> LocationObject list \<Rightarrow> LocationTracking" where
  "feed p tr [] = tr"
| "feed p tr (location # rest) = feed p (watchCallback p tr location) rest"

subsection \<open>The meter screen\<close>

record MeterScreen =
  isRunning :: bool
  elapsedTime :: nat
  showManualInput :: bool
  manualDistance :: string
  calculator :: FareCalculator
  tracking :: LocationTracking

definition handleResetMeter :: "MeterScreen \<Rightarrow> MeterScreen" where
  "handleResetMeter m =
     m\<lparr>isRunning := False, elapsedTime := 0, calculator := resetMeter (calculator m),
       tracking := stopTracking (tracking m), showManualInput := False, manualDistance := []\<rparr>"

section \<open>Notions of the specification\<close>

text \<open>
  The rounding of the specification, in its own words: to the nearest whole unit, ties away
  from zero.
\<close>

definition round_half_away :: "real \<Rightarrow> real" where
  "round_half_away x = sgn x * of_int \<lfloor>\<bar>x\<bar> + 1 / 2\<rfloor>"


text \<open>
  The unrounded day subtotal of the specification, in the arithmetic of the program: the
  base fare up to the base distance, the base fare plus the rate times the excess beyond.
\<close>

definition subtotal :: "FareSettings \<Rightarrow> number \<Rightarrow> number" where
  "subtotal t d =
     (if num_le d (ToNumber (baseDistance t)) then ToNumber (baseFare t)
      else num_add (ToNumber (baseFare t))
             (num_mul (ToNumber (ratePerKm t)) (num_sub d (ToNumber (baseDistance t)))))"

text \<open>
  A positive field of a tariff: a finite positive binary64 number. A finite field, and a
  number that is not negative.
\<close>

fun positive_field :: "field \<Rightarrow> bool" where
  "positive_field (Number (Num x)) = (0 < x \<and> binary64 x)"
| "positive_field _ = False"


fun nn :: "number \<Rightarrow> bool" where
  "nn (Num x) = (0 \<le> x)"
| "nn PInf = True"
| "nn _ = False"


text \<open>
  The haversine formula in its usual form: the distance is \<open>2 R arcsin (sqrt a)\<close>, where
  \<open>a\<close> is the haversine of the central angle.
\<close>

definition haversine_a :: "real \<Rightarrow> real \<Rightarrow> real \<Rightarrow> real \<Rightarrow> real" where
  "haversine_a lat1 lon1 lat2 lon2 =
     (sin ((lat2 - lat1) * pi / 180 / 2))\<^sup>2
     + cos (lat1 * pi / 180) * cos (lat2 * pi / 180) * (sin ((lon2 - lon1) * pi / 180 / 2))\<^sup>2"

section \<open>Properties of binary64 rounding\<close>

lemma rne_bounds: "\<lfloor>x\<rfloor> \<le> rne x \<and> rne x \<le> \<lfloor>x\<rfloor> + 1"
  by (simp add: rne_def Let_def)

lemma rne_of_int [simp]: "rne (of_int n) = n"
  by (simp add: rne_def)

lemma rne_mono: "x \<le> y \<Longrightarrow> rne x \<le> rne y"
proof -
  assume le: "x \<le> y"
  then have f: "\<lfloor>x\<rfloor> \<le> \<lfloor>y\<rfloor>" by (rule floor_mono)
  show ?thesis
  proof (cases "\<lfloor>x\<rfloor> = \<lfloor>y\<rfloor>")
    case True
    with le show ?thesis by (auto simp: rne_def Let_def)
  next
    case False
    with f have "\<lfloor>x\<rfloor> + 1 \<le> \<lfloor>y\<rfloor>" by simp
    with rne_bounds [of x] rne_bounds [of y] show ?thesis by linarith
  qed
qed

lemma rne_le_int: "x \<le> of_int n \<Longrightarrow> rne x \<le> n"
  using rne_mono [of x "of_int n"] by simp

lemma rne_ge_int: "of_int n \<le> x \<Longrightarrow> n \<le> rne x"
  using rne_mono [of "of_int n" x] by simp

lemma round64_nonneg: "0 \<le> x \<Longrightarrow> 0 \<le> round64 x"
proof -
  assume "0 \<le> x"
  then have "(0::real) \<le> x / 2 powi ulp_exponent x" by simp
  then have "0 \<le> rne (x / 2 powi ulp_exponent x)" using rne_ge_int [of 0] by simp
  then show ?thesis by (simp add: round64_def)
qed


lemma powr2_int: "2 powr real_of_int k = (2::real) powi k"
  by (simp add: powr_real_of_int')

lemma floor_log2_bounds:
  assumes "0 < x"
  shows "2 powi \<lfloor>log 2 x\<rfloor> \<le> x \<and> x < 2 powi (\<lfloor>log 2 x\<rfloor> + 1)"
proof -
  have "2 powr real_of_int \<lfloor>log 2 x\<rfloor> \<le> x \<and> x < 2 powr (real_of_int \<lfloor>log 2 x\<rfloor> + 1)"
    using floor_log_eq_powr_iff [of x 2 "\<lfloor>log 2 x\<rfloor>"] assms by simp
  moreover have "real_of_int \<lfloor>log 2 x\<rfloor> + 1 = real_of_int (\<lfloor>log 2 x\<rfloor> + 1)" by simp
  ultimately have "2 powr real_of_int \<lfloor>log 2 x\<rfloor> \<le> x
      \<and> x < 2 powr real_of_int (\<lfloor>log 2 x\<rfloor> + 1)" by (simp only:)
  then show ?thesis by (simp only: powr2_int)
qed

lemma floor_log2_eq:
  assumes "0 < x" and "2 powi k \<le> x" and "x < 2 powi (k + 1)"
  shows "\<lfloor>log 2 x\<rfloor> = k"
proof -
  have "2 powr real_of_int k \<le> x" using assms(2) by (simp only: powr2_int)
  moreover have "x < 2 powr real_of_int (k + 1)" using assms(3) by (simp only: powr2_int)
  moreover have "real_of_int (k + 1) = real_of_int k + 1" by simp
  ultimately have "2 powr real_of_int k \<le> x \<and> x < 2 powr (real_of_int k + 1)" by (simp only:)
  then show ?thesis using floor_log_eq_powr_iff [of x 2 k] assms(1) by simp
qed


lemma round64_le_pow2:
  assumes "0 < x" and "x \<le> 2 powi j" and "ulp_exponent x \<le> j"
  shows "round64 x \<le> 2 powi j"
proof -
  let ?e = "ulp_exponent x"
  have split: "(2::real) powi j = 2 ^ nat (j - ?e) * 2 powi ?e"
    using assms(3) power_int_add [of "2::real" "j - ?e" ?e] by (simp add: power_int_nonneg_exp)
  have "x / 2 powi ?e \<le> 2 ^ nat (j - ?e)"
    using assms(2) by (simp add: split pos_divide_le_eq)
  also have "(2::real) ^ nat (j - ?e) = of_int (2 ^ nat (j - ?e))" by simp
  finally have "rne (x / 2 powi ?e) \<le> 2 ^ nat (j - ?e)" by (rule rne_le_int)
  then have "real_of_int (rne (x / 2 powi ?e)) \<le> 2 ^ nat (j - ?e)"
    by (metis of_int_le_iff of_int_numeral of_int_power)
  then have "real_of_int (rne (x / 2 powi ?e)) * 2 powi ?e \<le> 2 ^ nat (j - ?e) * 2 powi ?e"
    by (intro mult_right_mono) simp_all
  then show ?thesis using assms(1) by (simp add: round64_def split)
qed

lemma round64_ge_pow2:
  assumes "0 < x" and "2 powi j \<le> x" and "ulp_exponent x \<le> j"
  shows "2 powi j \<le> round64 x"
proof -
  let ?e = "ulp_exponent x"
  have split: "(2::real) powi j = 2 ^ nat (j - ?e) * 2 powi ?e"
    using assms(3) power_int_add [of "2::real" "j - ?e" ?e] by (simp add: power_int_nonneg_exp)
  have "(2::real) ^ nat (j - ?e) \<le> x / 2 powi ?e"
    using assms(2) by (simp add: split pos_le_divide_eq)
  moreover have "(2::real) ^ nat (j - ?e) = of_int (2 ^ nat (j - ?e))" by simp
  ultimately have "of_int (2 ^ nat (j - ?e)) \<le> x / 2 powi ?e" by (simp only:)
  then have "2 ^ nat (j - ?e) \<le> rne (x / 2 powi ?e)" by (rule rne_ge_int)
  then have "(2::real) ^ nat (j - ?e) \<le> real_of_int (rne (x / 2 powi ?e))"
    by (metis of_int_le_iff of_int_numeral of_int_power)
  then have "2 ^ nat (j - ?e) * 2 powi ?e \<le> real_of_int (rne (x / 2 powi ?e)) * 2 powi ?e"
    by (intro mult_right_mono) simp_all
  then show ?thesis using assms(1) by (simp add: round64_def split)
qed

lemma round64_mono_pos:
  assumes "0 < x" and "x \<le> y"
  shows "round64 x \<le> round64 y"
proof -
  have ypos: "0 < y" using assms by simp
  let ?kx = "\<lfloor>log 2 x\<rfloor>" and ?ky = "\<lfloor>log 2 y\<rfloor>"
  have k: "?kx \<le> ?ky" using assms ypos by (intro floor_mono) simp
  have ex: "ulp_exponent x = max (?kx - 52) (- 1074)" and ey: "ulp_exponent y = max (?ky - 52) (- 1074)"
    using assms ypos by (simp_all add: ulp_exponent_def)
  show ?thesis
  proof (cases "ulp_exponent x = ulp_exponent y")
    case True
    have "x / 2 powi ulp_exponent y \<le> y / 2 powi ulp_exponent y"
      using assms(2) by (simp add: divide_right_mono)
    then have "rne (x / 2 powi ulp_exponent y) \<le> rne (y / 2 powi ulp_exponent y)" by (rule rne_mono)
    then have "real_of_int (rne (x / 2 powi ulp_exponent y)) * 2 powi ulp_exponent y
        \<le> real_of_int (rne (y / 2 powi ulp_exponent y)) * 2 powi ulp_exponent y"
      by (intro mult_right_mono) simp_all
    with True assms ypos show ?thesis by (simp add: round64_def)
  next
    case False
    with k ex ey have lt: "ulp_exponent x < ulp_exponent y" by linarith
    with ex ey have eyk: "ulp_exponent y = ?ky - 52" and kk: "?kx + 1 \<le> ?ky" by linarith+
    have "x < 2 powi (?kx + 1)" using floor_log2_bounds [OF assms(1)] by simp
    also have "\<dots> \<le> 2 powi ?ky" using kk by (intro power_int_increasing) simp_all
    finally have xle: "x \<le> 2 powi ?ky" by simp
    have "round64 x \<le> 2 powi ?ky"
      using assms(1) xle lt eyk by (intro round64_le_pow2) simp_all
    also have "\<dots> \<le> round64 y"
      using ypos floor_log2_bounds [OF ypos] eyk by (intro round64_ge_pow2) simp_all
    finally show ?thesis .
  qed
qed

lemma round64_zero [simp]: "round64 0 = 0"
  by (simp add: round64_def)

lemma round64_mono: "0 \<le> x \<Longrightarrow> x \<le> y \<Longrightarrow> round64 x \<le> round64 y"
  using round64_mono_pos [of x y] round64_nonneg [of y] by (cases "x = 0") simp_all

lemma round64_eval:
  assumes "0 < x" and "2 powi k \<le> x" and "x < 2 powi (k + 1)"
  shows "round64 x =
           of_int (rne (x / 2 powi max (k - 52) (- 1074))) * 2 powi max (k - 52) (- 1074)"
proof -
  have "\<lfloor>log 2 \<bar>x\<bar>\<rfloor> = k" using assms by (simp add: floor_log2_eq)
  then show ?thesis using assms(1) by (simp add: round64_def ulp_exponent_def)
qed


lemma fl_zero [simp]: "fl 0 = Num 0"
  by (simp add: fl_def)

lemma fl_exact:
  assumes "0 < x" and "2 powi k \<le> x" and "x < 2 powi (k + 1)" and "k < 1024"
    and "x / 2 powi max (k - 52) (- 1074) = of_int m"
  shows "fl x = Num x"
proof -
  have "x = of_int m * 2 powi max (k - 52) (- 1074)"
    using assms(5) by (simp add: nonzero_divide_eq_eq)
  then have r: "round64 x = x"
    using round64_eval [OF assms(1-3)] assms(5) by simp
  have "(2::real) powi (k + 1) \<le> 2 powi 1024"
    using assms(4) by (intro power_int_increasing) simp_all
  then have "x < 2 ^ 1024" using assms(3) by simp
  then show ?thesis using assms(1) by (simp add: fl_def r)
qed

lemma fl_eval:
  assumes "0 < x" and "2 powi k \<le> x" and "x < 2 powi (k + 1)" and "k < 1023"
  shows "fl x = Num (of_int (rne (x / 2 powi max (k - 52) (- 1074))) * 2 powi max (k - 52) (- 1074))"
proof -
  have r: "round64 x = of_int (rne (x / 2 powi max (k - 52) (- 1074))) * 2 powi max (k - 52) (- 1074)"
    by (rule round64_eval [OF assms(1-3)])
  have "k + 1 \<le> 1023" using assms(4) by simp
  then have "(2::real) powi (k + 1) \<le> 2 powi 1023"
    by (intro power_int_increasing) simp_all
  then have x: "x \<le> 2 powi 1023" using assms(3) by simp
  have "ulp_exponent x \<le> 1023" using assms by (simp add: ulp_exponent_def floor_log2_eq)
  then have "round64 x \<le> 2 powi 1023" using assms(1) x by (intro round64_le_pow2)
  also have "\<dots> < (2::real) ^ 1024" by simp
  finally have "round64 x < 2 ^ 1024" .
  moreover have "0 \<le> round64 x" using assms(1) by (simp add: round64_nonneg)
  ultimately show ?thesis unfolding fl_def Let_def r [symmetric]
    by (smt (verit) zero_less_power)
qed

lemma fl_nn: "0 \<le> x \<Longrightarrow> nn (fl x)"
  using round64_nonneg [of x] by (simp add: fl_def Let_def)

lemma fl_mono: "0 \<le> x \<Longrightarrow> x \<le> y \<Longrightarrow> num_le (fl x) (fl y)"
  using round64_mono [of x y] round64_nonneg [of x] round64_nonneg [of y]
  by (auto simp: fl_def Let_def)



lemma nn_num_le_PInf: "nn a \<Longrightarrow> num_le a PInf"
  by (cases a) simp_all

lemma nn_num_le_refl: "nn a \<Longrightarrow> num_le a a"
  by (cases a) simp_all

lemma nn_mul_left:
  assumes "0 < r" and "nn a" and "nn b" and "num_le a b"
  shows "nn (num_mul (Num r) a) \<and> nn (num_mul (Num r) b)
         \<and> num_le (num_mul (Num r) a) (num_mul (Num r) b)"
proof (cases a)
  case (Num x)
  note a = this
  show ?thesis
  proof (cases b)
    case (Num y)
    with a assms have "0 \<le> r * x" "r * x \<le> r * y" "0 \<le> r * y" by (simp_all add: mult_left_mono)
    with a Num show ?thesis by (simp add: fl_nn fl_mono)
  next
    case PInf
    from a assms have "nn (fl (r * x))" by (intro fl_nn) simp
    with a PInf assms show ?thesis by (simp add: nn_num_le_PInf)
  qed (use assms in simp_all)
next
  case PInf
  with assms show ?thesis by (cases b) simp_all
qed (use assms in simp_all)

lemma nn_mul_right:
  assumes "0 < c" and "nn a" and "nn b" and "num_le a b"
  shows "nn (num_mul a (Num c)) \<and> nn (num_mul b (Num c))
         \<and> num_le (num_mul a (Num c)) (num_mul b (Num c))"
proof -
  have "num_mul v (Num c) = num_mul (Num c) v" for v
    by (cases v) (simp_all add: mult.commute)
  then show ?thesis using nn_mul_left [OF assms] by simp
qed

lemma nn_add_left:
  assumes "0 \<le> c" and "nn a" and "nn b" and "num_le a b"
  shows "nn (num_add (Num c) a) \<and> nn (num_add (Num c) b)
         \<and> num_le (num_add (Num c) a) (num_add (Num c) b)"
proof (cases a)
  case (Num x)
  note a = this
  show ?thesis
  proof (cases b)
    case (Num y)
    with a assms show ?thesis by (simp add: fl_nn fl_mono)
  next
    case PInf
    with a assms show ?thesis
      by (simp add: fl_nn nn_num_le_PInf)
  qed (use assms in simp_all)
next
  case PInf
  with assms show ?thesis by (cases b) simp_all
qed (use assms in simp_all)

lemma nn_add_ge:
  assumes "0 \<le> c" and "binary64 c" and "nn a"
  shows "nn (num_add (Num c) a) \<and> num_le (Num c) (num_add (Num c) a)"
proof (cases a)
  case (Num x)
  with assms have "num_le (fl c) (fl (c + x))" by (intro fl_mono) simp_all
  with Num assms show ?thesis by (simp add: fl_nn binary64_def)
qed (use assms in simp_all)

lemma Math_round_mono: "nn a \<Longrightarrow> nn b \<Longrightarrow> num_le a b \<Longrightarrow> num_le (Math_round a) (Math_round b)"
  by (cases a; cases b) (simp_all add: floor_mono)


lemma num_mul_NaN_right [simp]: "num_mul v NaN = NaN"
  by (cases v) simp_all

lemma num_add_NaN_right [simp]: "num_add v NaN = NaN"
  by (cases v) simp_all

lemma num_sub_NaN_right [simp]: "num_sub v NaN = NaN"
  by (cases v) simp_all




lemma fl_values:
  "fl (1 / 2) = Num (1 / 2)" "fl (15 / 2) = Num (15 / 2)" "fl (75 / 2) = Num (75 / 2)"
  "fl (7 / 2) = Num (7 / 2)" "fl (105 / 2) = Num (105 / 2)" "fl (165 / 2) = Num (165 / 2)"
  "fl (495 / 4) = Num (495 / 4)" "fl 45 = Num 45" "fl 30 = Num 30" "fl (3 / 2) = Num (3 / 2)"
  "fl 15 = Num 15" "fl 4 = Num 4" "fl 5 = Num 5" "fl 60 = Num 60" "fl 75 = Num 75"
  "fl 90 = Num 90" "fl 105 = Num 105" "fl 25 = Num 25" "fl (25 / 2) = Num (25 / 2)"
proof -
  show "fl (1 / 2) = Num (1 / 2)" by (rule fl_exact [of _ "- 1" "2 ^ 52"]) simp_all
  show "fl (15 / 2) = Num (15 / 2)" by (rule fl_exact [of _ 2 "15 * 2 ^ 49"]) simp_all
  show "fl (75 / 2) = Num (75 / 2)" by (rule fl_exact [of _ 5 "75 * 2 ^ 46"]) simp_all
  show "fl (7 / 2) = Num (7 / 2)" by (rule fl_exact [of _ 1 "7 * 2 ^ 50"]) simp_all
  show "fl (105 / 2) = Num (105 / 2)" by (rule fl_exact [of _ 5 "105 * 2 ^ 46"]) simp_all
  show "fl (165 / 2) = Num (165 / 2)" by (rule fl_exact [of _ 6 "165 * 2 ^ 45"]) simp_all
  show "fl (495 / 4) = Num (495 / 4)" by (rule fl_exact [of _ 6 "495 * 2 ^ 44"]) simp_all
  show "fl 45 = Num 45" by (rule fl_exact [of _ 5 "45 * 2 ^ 47"]) simp_all
  show "fl 30 = Num 30" by (rule fl_exact [of _ 4 "30 * 2 ^ 48"]) simp_all
  show "fl (3 / 2) = Num (3 / 2)" by (rule fl_exact [of _ 0 "3 * 2 ^ 51"]) simp_all
  show "fl 15 = Num 15" by (rule fl_exact [of _ 3 "15 * 2 ^ 49"]) simp_all
  show "fl 4 = Num 4" by (rule fl_exact [of _ 2 "4 * 2 ^ 50"]) simp_all
  show "fl 5 = Num 5" by (rule fl_exact [of _ 2 "5 * 2 ^ 50"]) simp_all
  show "fl 60 = Num 60" by (rule fl_exact [of _ 5 "60 * 2 ^ 47"]) simp_all
  show "fl 75 = Num 75" by (rule fl_exact [of _ 6 "75 * 2 ^ 46"]) simp_all
  show "fl 90 = Num 90" by (rule fl_exact [of _ 6 "90 * 2 ^ 46"]) simp_all
  show "fl 105 = Num 105" by (rule fl_exact [of _ 6 "105 * 2 ^ 46"]) simp_all
  show "fl 25 = Num 25" by (rule fl_exact [of _ 4 "25 * 2 ^ 48"]) simp_all
  show "fl (25 / 2) = Num (25 / 2)" by (rule fl_exact [of _ 3 "25 * 2 ^ 48"]) simp_all
qed

section \<open>Properties of the fare engine\<close>

lemma surcharge_factor: "num_add (Num 1) NIGHT_SURCHARGE = Num (3 / 2)"
proof -
  have "fl (3 / 2) = Num (3 / 2)"
    by (rule fl_exact [of "3 / 2" 0 "3 * 2 ^ 51"]) simp_all
  then show ?thesis by (simp add: NIGHT_SURCHARGE_def)
qed

lemma calculateFareInternal_subtotal:
  "calculateFareInternal fs d n (Some t) =
     Inr (Math_round (if n then num_mul (subtotal t d) (Num (3 / 2)) else subtotal t d))"
  by (simp add: calculateFareInternal_def subtotal_def surcharge_factor Let_def)


lemma positive_fieldE:
  assumes "positive_field f"
  obtains x where "f = Number (Num x)" and "0 < x" and "binary64 x"
  using assms by (cases f rule: positive_field.cases) simp_all

lemma excess_nn:
  assumes "num_le (Num 0) d" and "\<not> num_le d (Num bd)"
  shows "nn (num_sub d (Num bd))"
proof (cases d)
  case (Num x)
  with assms(2) have "0 \<le> x - bd" by simp
  then have "nn (fl (x - bd))" by (rule fl_nn)
  with Num show ?thesis by simp
qed (use assms in simp_all)

lemma subtotal_nn:
  assumes "num_le (Num 0) d"
    and "positive_field (baseFare t)" and "positive_field (baseDistance t)"
    and "positive_field (ratePerKm t)"
  shows "nn (subtotal t d)"
proof -
  obtain bf where bf: "baseFare t = Number (Num bf)" "0 < bf" "binary64 bf"
    using assms(2) by (rule positive_fieldE)
  obtain bd where bd: "baseDistance t = Number (Num bd)" "0 < bd" "binary64 bd"
    using assms(3) by (rule positive_fieldE)
  obtain r where r: "ratePerKm t = Number (Num r)" "0 < r" "binary64 r"
    using assms(4) by (rule positive_fieldE)
  show ?thesis
  proof (cases "num_le d (Num bd)")
    case True
    with bf bd show ?thesis by (simp add: subtotal_def)
  next
    case False
    let ?e = "num_sub d (Num bd)"
    have e: "nn ?e" using assms(1) False by (rule excess_nn)
    then have "nn (num_mul (Num r) ?e)"
      using nn_mul_left [of r ?e ?e] r(2) by (simp add: nn_num_le_refl)
    then have "nn (num_add (Num bf) (num_mul (Num r) ?e))"
      using nn_add_left [of bf "num_mul (Num r) ?e" "num_mul (Num r) ?e"] bf(2)
      by (simp add: nn_num_le_refl)
    with False bf bd r show ?thesis by (simp add: subtotal_def)
  qed
qed


lemma default_tariff_positive:
  "positive_field (baseFare DEFAULT_SETTINGS) \<and> positive_field (baseDistance DEFAULT_SETTINGS)
   \<and> positive_field (ratePerKm DEFAULT_SETTINGS)"
  by (simp add: DEFAULT_SETTINGS_def DEFAULT_MIN_CHARGE_def DEFAULT_BASE_DISTANCE_def
      DEFAULT_RATE_PER_KM_def binary64_def fl_values)

lemmas default_fields = DEFAULT_SETTINGS_def DEFAULT_MIN_CHARGE_def DEFAULT_BASE_DISTANCE_def
  DEFAULT_RATE_PER_KM_def

text \<open>
  The arithmetic is that of the program. With the tariff \<open>{25, 1.2, 12.5}\<close> at 35 km by
  day the program computes 447.49999999999994 and charges 447, while the same formula over
  the reals gives 447.5 and 448; at 34 km by night it charges 652, while the formula over the
  reals gives 652.5 and 653.
\<close>

lemma binary64_rounding_example:
  "fl (12 / 10) = Num (5404319552844595 / 2 ^ 52)
   \<and> calculateFareInternal None (Num 35) False
       (Some \<lparr>baseFare = Number (Num 25), baseDistance = Number (fl (12 / 10)),
              ratePerKm = Number (Num (25 / 2))\<rparr>) = Inr (Num 447)
   \<and> round_half_away (25 + 25 / 2 * (35 - 12 / 10)) = 448"
proof -
  have a: "fl (12 / 10) = Num (5404319552844595 / 2 ^ 52)"
    using fl_eval [of "12 / 10" 0] by (simp add: rne_def)
  have b: "fl (35 - 5404319552844595 / 2 ^ 52) = Num (4756927106410086 / 2 ^ 47)"
    using fl_eval [of "35 - 5404319552844595 / 2 ^ 52" 5] by (simp add: rne_def)
  have c: "fl (25 / 2 * (4756927106410086 / 2 ^ 47)) = Num (7432698603765759 / 2 ^ 44)"
    using fl_eval [of "25 / 2 * (4756927106410086 / 2 ^ 47)" 8] by (simp add: rne_def)
  have d: "fl (25 + 7432698603765759 / 2 ^ 44) = Num (7872503254876159 / 2 ^ 44)"
    using fl_eval [of "25 + 7432698603765759 / 2 ^ 44" 8] by (simp add: rne_def)
  have "calculateFareInternal None (Num 35) False
       (Some \<lparr>baseFare = Number (Num 25), baseDistance = Number (fl (12 / 10)),
              ratePerKm = Number (Num (25 / 2))\<rparr>) = Inr (Num 447)"
    unfolding calculateFareInternal_subtotal subtotal_def a
    using b c d by simp
  moreover have "round_half_away (25 + 25 / 2 * (35 - 12 / 10)) = 448"
    by (simp add: round_half_away_def)
  ultimately show ?thesis using a by blast
qed


lemma binary64_rounding_example_night:
  "calculateFareInternal None (Num 34) True
       (Some \<lparr>baseFare = Number (Num 25), baseDistance = Number (fl (12 / 10)),
              ratePerKm = Number (Num (25 / 2))\<rparr>) = Inr (Num 652)
   \<and> round_half_away (15 / 10 * (25 + 25 / 2 * (34 - 12 / 10))) = 653"
proof -
  have a: "fl (12 / 10) = Num (5404319552844595 / 2 ^ 52)"
    using fl_eval [of "12 / 10" 0] by (simp add: rne_def)
  have b: "fl (34 - 5404319552844595 / 2 ^ 52) = Num (2308094809027379 / 2 ^ 46)"
    using fl_eval [of "34 - 5404319552844595 / 2 ^ 52" 5] by (simp add: rne_def)
  have c: "fl (25 / 2 * (2308094809027379 / 2 ^ 46)) = Num (7212796278210559 / 2 ^ 44)"
    using fl_eval [of "25 / 2 * (2308094809027379 / 2 ^ 46)" 8] by (simp add: rne_def)
  have d: "fl (25 + 7212796278210559 / 2 ^ 44) = Num (7652600929320959 / 2 ^ 44)"
    using fl_eval [of "25 + 7212796278210559 / 2 ^ 44" 8] by (simp add: rne_def)
  have e: "fl (7652600929320959 / 2 ^ 44 * (3 / 2)) = Num (5739450696990719 / 2 ^ 43)"
    using fl_eval [of "7652600929320959 / 2 ^ 44 * (3 / 2)" 9] by (simp add: rne_def)
  have "calculateFareInternal None (Num 34) True
       (Some \<lparr>baseFare = Number (Num 25), baseDistance = Number (fl (12 / 10)),
              ratePerKm = Number (Num (25 / 2))\<rparr>) = Inr (Num 652)"
    unfolding calculateFareInternal_subtotal subtotal_def a
    using b c d e by simp
  moreover have "round_half_away (15 / 10 * (25 + 25 / 2 * (34 - 12 / 10))) = 653"
    by (simp add: round_half_away_def)
  ultimately show ?thesis by blast
qed






lemma subtotal_mono:
  assumes "0 \<le> d1" and "d1 < d2"
    and "positive_field (baseFare t)" and "positive_field (baseDistance t)"
    and "positive_field (ratePerKm t)"
  shows "num_le (subtotal t (Num d1)) (subtotal t (Num d2))"
proof -
  obtain bf where bf: "baseFare t = Number (Num bf)" "0 < bf" "binary64 bf"
    using assms(3) by (rule positive_fieldE)
  obtain bd where bd: "baseDistance t = Number (Num bd)" "0 < bd" "binary64 bd"
    using assms(4) by (rule positive_fieldE)
  obtain r where r: "ratePerKm t = Number (Num r)" "0 < r" "binary64 r"
    using assms(5) by (rule positive_fieldE)
  have s: "subtotal t (Num d) =
      (if d \<le> bd then Num bf else num_add (Num bf) (num_mul (Num r) (fl (d - bd))))" for d
    using bf bd r by (simp add: subtotal_def)
  consider "d2 \<le> bd" | "d1 \<le> bd" "bd < d2" | "bd < d1"
    using assms(2) by linarith
  then show ?thesis
  proof cases
    case 1
    with assms(2) show ?thesis by (simp add: s)
  next
    case 2
    have "nn (fl (d2 - bd))" using 2 by (intro fl_nn) simp
    then have "nn (num_mul (Num r) (fl (d2 - bd)))"
      using nn_mul_left [of r "fl (d2 - bd)" "fl (d2 - bd)"] r(2) by (simp add: nn_num_le_refl)
    then have "num_le (Num bf) (num_add (Num bf) (num_mul (Num r) (fl (d2 - bd))))"
      using nn_add_ge [of bf] bf by simp
    with 2 show ?thesis by (simp add: s)
  next
    case 3
    with assms(2) have lt: "bd < d2" by simp
    have e: "nn (fl (d1 - bd))" "nn (fl (d2 - bd))" "num_le (fl (d1 - bd)) (fl (d2 - bd))"
      using 3 lt assms(2) by (simp_all add: fl_nn fl_mono)
    have m: "nn (num_mul (Num r) (fl (d1 - bd)))" "nn (num_mul (Num r) (fl (d2 - bd)))"
      "num_le (num_mul (Num r) (fl (d1 - bd))) (num_mul (Num r) (fl (d2 - bd)))"
      using nn_mul_left [OF r(2) e] by simp_all
    have "num_le (num_add (Num bf) (num_mul (Num r) (fl (d1 - bd))))
        (num_add (Num bf) (num_mul (Num r) (fl (d2 - bd))))"
      using nn_add_left [OF _ m, of bf] bf(2) by simp
    with 3 lt show ?thesis by (simp add: s)
  qed
qed

text \<open>
  Claim C6. The fare is monotone in the distance: for a tariff with positive fields, either
  night flag and distances \<open>0 \<le> d1 < d2\<close>, both fares are computed and the fare for
  \<open>d1\<close> is at most the fare for \<open>d2\<close> (compared with JavaScript's \<open><=\<close>).
\<close>

theorem fare_monotone:
  assumes "0 \<le> d1" and "d1 < d2"
    and "positive_field (baseFare t)" and "positive_field (baseDistance t)"
    and "positive_field (ratePerKm t)"
  shows "\<exists>f1 f2. calculateFareInternal fs (Num d1) n (Some t) = Inr f1
           \<and> calculateFareInternal fs (Num d2) n (Some t) = Inr f2 \<and> num_le f1 f2"
proof -
  let ?s1 = "subtotal t (Num d1)" and ?s2 = "subtotal t (Num d2)"
  have le: "num_le ?s1 ?s2" using assms by (rule subtotal_mono)
  have nn: "nn ?s1" "nn ?s2"
    using assms by (auto intro!: subtotal_nn)
  show ?thesis
  proof (cases n)
    case True
    have "num_le (Math_round (num_mul ?s1 (Num (3 / 2)))) (Math_round (num_mul ?s2 (Num (3 / 2))))"
      using nn_mul_right [of "3 / 2" ?s1 ?s2] nn le by (intro Math_round_mono) simp_all
    with True show ?thesis by (simp add: calculateFareInternal_subtotal)
  next
    case False
    have "num_le (Math_round ?s1) (Math_round ?s2)"
      using nn le by (rule Math_round_mono)
    with False show ?thesis by (simp add: calculateFareInternal_subtotal)
  qed
qed

theorem fare_monotone_witness:
  "\<exists>f1 f2. calculateFareInternal None (Num 1) True (Some DEFAULT_SETTINGS) = Inr f1
     \<and> calculateFareInternal None (Num 4) True (Some DEFAULT_SETTINGS) = Inr f2 \<and> num_le f1 f2"
  using fare_monotone [of 1 4 DEFAULT_SETTINGS None True] default_tariff_positive
  by simp

text \<open>
  Claim C8. For an hour of the day (0 to 23), the night-window evaluator is true exactly
  on the hours 22, 23, 0, 1, 2, 3 and 4, and false exactly on the hours 5 to 21; hours 5
  and 21 give false.
\<close>

theorem night_window:
  assumes "hour < 24"
  shows "isNightTime hour = (hour \<in> {22, 23, 0, 1, 2, 3, 4})
         \<and> (\<not> isNightTime hour) = (hour \<in> {5..21})
         \<and> \<not> isNightTime 5 \<and> \<not> isNightTime 21"
  using assms unfolding isNightTime_def by auto

theorem night_window_witness:
  "isNightTime 22 \<and> (22::nat) \<notin> {5..21}"
  using night_window [of 22] by simp

text \<open>
  Claim C3, as stated: a negative or \<open>NaN\<close> distance is clamped to 0, so the fare equals
  the fare at distance 0 and is a number. The engine has no clamp: with the default tariff
  by day a \<open>NaN\<close> distance gives \<open>NaN\<close>, while distance 0 gives 30.
\<close>

theorem nan_distance_not_clamped:
  "calculateFareInternal (Some DEFAULT_SETTINGS) NaN False (Some DEFAULT_SETTINGS) = Inr NaN
   \<and> calculateFareInternal (Some DEFAULT_SETTINGS) (Num 0) False (Some DEFAULT_SETTINGS) = Inr (Num 30)
   \<and> calculateFareInternal (Some DEFAULT_SETTINGS) NaN False (Some DEFAULT_SETTINGS) \<noteq>
       calculateFareInternal (Some DEFAULT_SETTINGS) (Num 0) False (Some DEFAULT_SETTINGS)"
  by (simp add: calculateFareInternal_subtotal subtotal_def default_fields)

text \<open>
  The restriction to a base distance that is not negative is needed: with a base distance
  of \<open>-5\<close>, distance \<open>-1\<close> and distance 0 are both beyond it and are charged
  differently.
\<close>

lemma negative_baseDistance_example:
  "calculateFareInternal None (Num (- 1)) False
     (Some \<lparr>baseFare = Number (Num 30), baseDistance = Number (Num (- 5)),
            ratePerKm = Number (Num 15)\<rparr>) = Inr (Num 90)
   \<and> calculateFareInternal None (Num 0) False
     (Some \<lparr>baseFare = Number (Num 30), baseDistance = Number (Num (- 5)),
            ratePerKm = Number (Num 15)\<rparr>) = Inr (Num 105)"
  by (simp add: calculateFareInternal_subtotal subtotal_def fl_values)

text \<open>
  Claim C3, amended. For every tariff whose base distance is not negative and every negative
  distance, the fare computation returns the value it returns for distance 0 under the same
  night flag and tariff, which is the rounded base fare, with the surcharge by night; nothing
  is raised. A \<open>NaN\<close> distance is not clamped by the engine and gives \<open>NaN\<close>; the
  manual-distance handler replaces it by 0 (\<open>parseFloat(value) || 0\<close>) before the engine
  is called.
\<close>

theorem negative_distance_as_zero:
  assumes "d < 0" and "num_le (Num 0) (ToNumber (baseDistance t))"
  shows "calculateFareInternal fs (Num d) n (Some t) = calculateFareInternal fs (Num 0) n (Some t)
         \<and> calculateFareInternal fs (Num 0) n (Some t) =
             Inr (Math_round (if n then num_mul (ToNumber (baseFare t)) (Num (15 / 10))
                              else ToNumber (baseFare t)))
         \<and> calculateFareInternal fs NaN n (Some t) = Inr NaN
         \<and> calculateFareInternal fs (or_zero NaN) n (Some t) =
             calculateFareInternal fs (Num 0) n (Some t)"
proof -
  have le: "num_le (Num d) (ToNumber (baseDistance t))" "num_le (Num 0) (ToNumber (baseDistance t))"
    using assms by (cases "ToNumber (baseDistance t)"; simp)+
  have s: "subtotal t (Num d) = ToNumber (baseFare t)" "subtotal t (Num 0) = ToNumber (baseFare t)"
    using le by (simp_all add: subtotal_def)
  have nan: "subtotal t NaN = NaN" by (simp add: subtotal_def)
  show ?thesis
    by (simp add: calculateFareInternal_subtotal s nan or_zero_def)
qed

theorem negative_distance_as_zero_witness:
  "calculateFareInternal None (Num (- 3)) True (Some DEFAULT_SETTINGS) = Inr (Num 45)"
  using negative_distance_as_zero [of "- 3" DEFAULT_SETTINGS None True]
  by (simp add: default_fields fl_values)

section \<open>Properties of the persisted configuration\<close>

lemma loadFareSettings_cases:
  "loadFareSettings st =
     (if failing st then Some DEFAULT_SETTINGS
      else case items st ''fareSettings'' of
             Some (Json_text v) \<Rightarrow> v
           | _ \<Rightarrow> Some DEFAULT_SETTINGS)"
  by (simp add: loadFareSettings_def getItem_def DEFAULT_SETTINGS_def
      split: option.splits stored_text.splits)




text \<open>
  Claim C2, as stated: loading a persisted configuration with a zero field substitutes the
  defaults. The loader returns what is stored: with \<open>baseFare = 0\<close> persisted, the loaded
  configuration is not the default one and the day fare for 1 km is 0, not the 30 of the
  default tariff.
\<close>

theorem invalid_persisted_settings_loaded:
  "loadFareSettings
     \<lparr>items = [''fareSettings'' \<mapsto> Json_text (Some \<lparr>baseFare = Number (Num 0),
        baseDistance = Number (Num (3 / 2)), ratePerKm = Number (Num 15)\<rparr>)],
      failing = False\<rparr> =
     Some \<lparr>baseFare = Number (Num 0), baseDistance = Number (Num (3 / 2)),
           ratePerKm = Number (Num 15)\<rparr>
   \<and> loadFareSettings
     \<lparr>items = [''fareSettings'' \<mapsto> Json_text (Some \<lparr>baseFare = Number (Num 0),
        baseDistance = Number (Num (3 / 2)), ratePerKm = Number (Num 15)\<rparr>)],
      failing = False\<rparr> \<noteq> Some DEFAULT_SETTINGS
   \<and> calculateFareForDistance
       \<lparr>items = [''fareSettings'' \<mapsto> Json_text (Some \<lparr>baseFare = Number (Num 0),
          baseDistance = Number (Num (3 / 2)), ratePerKm = Number (Num 15)\<rparr>)],
        failing = False\<rparr>
       \<lparr>distance = Num 0, fare = Num 0, isNight = False, fareSettings = Some DEFAULT_SETTINGS\<rparr>
       (Num 1) False = Inr (Num 0)
   \<and> calculateFareInternal (Some DEFAULT_SETTINGS) (Num 1) False (Some DEFAULT_SETTINGS) =
       Inr (Num 30)"
  by (simp add: loadFareSettings_cases calculateFareForDistance_def calculateFareInternal_subtotal
      subtotal_def default_fields)

text \<open>
  Claim C2, amended. Loading never raises. It substitutes the default configuration
  \<open>{30, 1.5, 15}\<close> when the store holds no usable text (no item, an empty or unparsable
  text, a rejected read); otherwise it returns the value parsed from the stored text as it
  is, with no validation, and the fare computed after loading is computed from that value.
\<close>

theorem load_returns_stored_or_default:
  "loadFareSettings st =
     (if failing st then Some DEFAULT_SETTINGS
      else case items st ''fareSettings'' of
             Some (Json_text v) \<Rightarrow> v
           | _ \<Rightarrow> Some DEFAULT_SETTINGS)
   \<and> calculateFareForDistance st h d n =
       calculateFareInternal (fareSettings h) d n
         (if failing st then Some DEFAULT_SETTINGS
          else case items st ''fareSettings'' of
                 Some (Json_text v) \<Rightarrow> v
               | _ \<Rightarrow> Some DEFAULT_SETTINGS)"
  by (simp add: calculateFareForDistance_def loadFareSettings_cases)

text \<open>
  A stored text \<open>null\<close> is loaded as \<open>null\<close>: the engine then falls back to the
  hook's own settings, and throws once those are \<open>null\<close> too, as they are after
  \<open>updateDistance\<close> has stored the loaded value. A stored text \<open>{}\<close> gives the fare
  \<open>NaN\<close>.
\<close>

lemma null_settings_text_example:
  "loadFareSettings \<lparr>items = [''fareSettings'' \<mapsto> Json_text None], failing = False\<rparr> = None
   \<and> calculateFareForDistance
       \<lparr>items = [''fareSettings'' \<mapsto> Json_text None], failing = False\<rparr>
       \<lparr>distance = Num 0, fare = Num 0, isNight = False, fareSettings = None\<rparr>
       (Num 1) False = Inl TypeError
   \<and> fareSettings (fst (updateDistance
       \<lparr>items = [''fareSettings'' \<mapsto> Json_text None], failing = False\<rparr> 12
       \<lparr>distance = Num 0, fare = Num 0, isNight = False, fareSettings = Some DEFAULT_SETTINGS\<rparr>
       (Num 1))) = None
   \<and> calculateFareForDistance
       \<lparr>items = [''fareSettings'' \<mapsto> Json_text (Some \<lparr>baseFare = Undefined,
          baseDistance = Undefined, ratePerKm = Undefined\<rparr>)], failing = False\<rparr>
       \<lparr>distance = Num 0, fare = Num 0, isNight = False, fareSettings = Some DEFAULT_SETTINGS\<rparr>
       (Num 1) False = Inr NaN"
  by (simp add: loadFareSettings_cases calculateFareForDistance_def updateDistance_def
      calculateFareInternal_def Let_def default_fields isNightTime_def)





section \<open>Properties of the distance accumulator\<close>

lemma cos_half_angle: "cos x = 1 - 2 * (sin (x / 2))\<^sup>2" for x :: real
proof -
  have "cos (2 * (x / 2)) = 1 - 2 * (sin (x / 2))\<^sup>2" by (rule cos_double_sin)
  moreover have "2 * (x / 2) = x" by simp
  ultimately show ?thesis by (simp only:)
qed

lemma cos_cos_half: "cos A * cos B = 1 - (sin ((A - B) / 2))\<^sup>2 - (sin ((A + B) / 2))\<^sup>2" for A B :: real
  unfolding cos_times_cos cos_half_angle [of "A - B"] cos_half_angle [of "A + B"] by simp

lemma sin_squared_le_one: "(sin x)\<^sup>2 \<le> 1" for x :: real
  using sin_cos_squared_add [of x] zero_le_power2 [of "cos x"] by linarith

lemma haversine_a_decomp:
  "\<exists>s u v. 0 \<le> s \<and> s \<le> 1 \<and> 0 \<le> u \<and> u \<le> 1 \<and> 0 \<le> v \<and> v \<le> 1
     \<and> haversine_a lat1 lon1 lat2 lon2 = s * (1 - v) + v * (1 - u)"
proof -
  let ?A = "lat1 * pi / 180" and ?B = "lat2 * pi / 180"
  let ?s = "(sin ((?A - ?B) / 2))\<^sup>2" and ?u = "(sin ((?A + ?B) / 2))\<^sup>2"
  let ?v = "(sin ((lon2 - lon1) * pi / 180 / 2))\<^sup>2"
  have eq: "(sin ((lat2 - lat1) * pi / 180 / 2))\<^sup>2 = ?s"
  proof -
    have "(lat2 - lat1) * pi / 180 / 2 = - ((?A - ?B) / 2)" by (simp add: field_simps)
    then show ?thesis by (simp only: sin_minus power2_minus)
  qed
  have "haversine_a lat1 lon1 lat2 lon2 = ?s + (1 - ?s - ?u) * ?v"
    unfolding haversine_a_def eq cos_cos_half [of ?A ?B] by simp
  also have "\<dots> = ?s * (1 - ?v) + ?v * (1 - ?u)" by (simp add: algebra_simps)
  finally have "haversine_a lat1 lon1 lat2 lon2 = ?s * (1 - ?v) + ?v * (1 - ?u)" .
  moreover have "0 \<le> ?s" "?s \<le> 1" "0 \<le> ?u" "?u \<le> 1" "0 \<le> ?v" "?v \<le> 1"
    by (simp_all only: zero_le_power2 sin_squared_le_one)
  ultimately show ?thesis by blast
qed

lemma haversine_a_range: "0 \<le> haversine_a lat1 lon1 lat2 lon2 \<and> haversine_a lat1 lon1 lat2 lon2 \<le> 1"
proof -
  obtain s u v :: real where b: "0 \<le> s" "s \<le> 1" "0 \<le> u" "u \<le> 1" "0 \<le> v" "v \<le> 1"
    and e: "haversine_a lat1 lon1 lat2 lon2 = s * (1 - v) + v * (1 - u)"
    using haversine_a_decomp by blast
  have "0 \<le> s * (1 - v)" "0 \<le> v * (1 - u)" using b by simp_all
  then have lo: "0 \<le> s * (1 - v) + v * (1 - u)" by simp
  have "s * (1 - v) \<le> 1 * (1 - v)" using b by (intro mult_right_mono) simp_all
  moreover have "v * (1 - u) \<le> v * 1" using b by (intro mult_left_mono) simp_all
  ultimately have "s * (1 - v) + v * (1 - u) \<le> 1" by simp
  with lo e show ?thesis by simp
qed

lemma atan2_arcsin:
  assumes "0 \<le> a" "a \<le> 1"
  shows "Math_atan2 (sqrt a) (sqrt (1 - a)) = arcsin (sqrt a)"
proof (cases "a = 1")
  case True
  then show ?thesis by (simp add: Math_atan2_def)
next
  case False
  with assms have lt: "a < 1" by simp
  then have pos: "0 < sqrt (1 - a)" by simp
  have s1: "sqrt a < 1" using lt assms by (simp add: real_sqrt_lt_1_iff)
  have s0: "- 1 < sqrt a" using assms by (smt (verit) real_sqrt_ge_zero)
  have "(sqrt a)\<^sup>2 = a" using assms by simp
  then have "arcsin (sqrt a) = arctan (sqrt a / sqrt (1 - a))"
    using arcsin_arctan [OF s0 s1] by simp
  with pos show ?thesis by (simp add: Math_atan2_def)
qed

lemma calculateDistance_haversine:
  "calculateDistance lat1 lon1 lat2 lon2 =
     Num (2 * 6371 * arcsin (sqrt (haversine_a lat1 lon1 lat2 lon2)))"
proof -
  let ?a = "haversine_a lat1 lon1 lat2 lon2"
  have r: "0 \<le> ?a" "?a \<le> 1" using haversine_a_range by simp_all
  have a: "sin ((lat2 - lat1) * pi / 180 / 2) * sin ((lat2 - lat1) * pi / 180 / 2)
      + cos (lat1 * pi / 180) * cos (lat2 * pi / 180) * sin ((lon2 - lon1) * pi / 180 / 2)
        * sin ((lon2 - lon1) * pi / 180 / 2) = ?a"
    by (simp add: haversine_a_def power2_eq_square)
  have "calculateDistance lat1 lon1 lat2 lon2 = Num (6371 * (2 * Math_atan2 (sqrt ?a) (sqrt (1 - ?a))))"
    unfolding calculateDistance_def Let_def a using r by (simp add: Math_sqrt_def)
  then show ?thesis using atan2_arcsin [OF r] by simp
qed

lemma calculateDistance_equator:
  assumes "0 \<le> km" and "km < 6371 * pi"
  shows "calculateDistance 0 0 0 (km * 180 / (6371 * pi)) = Num km"
proof -
  let ?t = "km / (2 * 6371)"
  have t: "0 \<le> ?t" "?t < pi / 2" using assms by (simp_all add: field_simps)
  have a: "haversine_a 0 0 0 (km * 180 / (6371 * pi)) = (sin ?t)\<^sup>2"
    by (simp add: haversine_a_def)
  have "0 \<le> sin ?t" using t by (intro sin_ge_zero) (simp_all add: field_simps)
  then have "sqrt ((sin ?t)\<^sup>2) = sin ?t" by simp
  moreover have "arcsin (sin ?t) = ?t" using t by (intro arcsin_sin) simp_all
  ultimately show ?thesis unfolding calculateDistance_haversine a by simp
qed


lemma watchCallback_last: "lastLocationRef (watchCallback p tr loc) = Some loc"
  by (simp add: watchCallback_def Let_def split: option.splits number.splits)

lemma watchCallback_distance:
  "distanceTraveled (watchCallback p tr loc) =
     (case lastLocationRef tr of
        None \<Rightarrow> distanceTraveled tr
      | Some lastLocation \<Rightarrow>
          (case calculateDistance (latitude (coords lastLocation)) (longitude (coords lastLocation))
                  (latitude (coords loc)) (longitude (coords loc)) of
             Num d \<Rightarrow> if minDelta p < d \<and> d < 1 then distanceTraveled tr + d
                        else distanceTraveled tr
           | _ \<Rightarrow> distanceTraveled tr))"
  by (simp add: watchCallback_def Let_def split: option.splits number.splits)

lemma minDelta_pos: "0 < minDelta p"
  by (cases p) simp_all

lemma watchCallback_step:
  "distanceTraveled (watchCallback p tr loc) - distanceTraveled tr \<in> {0} \<union> {minDelta p <..< 1}"
  by (simp add: watchCallback_distance split: option.splits number.splits)

lemma watchCallback_mono: "distanceTraveled tr \<le> distanceTraveled (watchCallback p tr loc)"
  using watchCallback_step [of p tr loc] minDelta_pos [of p] by auto

lemma feed_mono: "distanceTraveled tr \<le> distanceTraveled (feed p tr xs)"
proof (induction xs arbitrary: tr)
  case Nil
  then show ?case by simp
next
  case (Cons x xs)
  have "distanceTraveled tr \<le> distanceTraveled (watchCallback p tr x)"
    by (rule watchCallback_mono)
  also have "\<dots> \<le> distanceTraveled (feed p (watchCallback p tr x) xs)"
    by (rule Cons.IH)
  finally show ?case by simp
qed

lemma feed_append: "feed p tr (xs @ ys) = feed p (feed p tr xs) ys"
  by (induction xs arbitrary: tr) simp_all

text \<open>
  On the web path the floor is 1 m, so a delta of 2 m is accepted there.
\<close>

lemma web_accepts_two_metres:
  assumes "lastLocationRef tr = Some lastLocation"
    and "calculateDistance (latitude (coords lastLocation)) (longitude (coords lastLocation))
           (latitude (coords loc)) (longitude (coords loc)) = Num (2 / 1000)"
  shows "distanceTraveled (watchCallback Web tr loc) = distanceTraveled tr + 2 / 1000"
  using assms by (simp add: watchCallback_distance)

text \<open>
  Claim C5. For a sample processed while tracking, with \<open>delta\<close> the haversine distance
  (Earth radius 6371 km) from the last sampled position: \<open>delta\<close> is added to the cumulative
  distance only when it lies strictly between the jitter floor (0.01 km native, 0.001 km
  web) and 1 km, and the last sampled position becomes the new sample whether or not the
  delta was accepted. So a delta of 0 or of 5000 km adds nothing on either path and a delta
  of 2 m adds nothing on the native path, while the last position is replaced.
\<close>

theorem sample_filter:
  assumes "lastLocationRef tr = Some lastLocation"
    and "calculateDistance (latitude (coords lastLocation)) (longitude (coords lastLocation))
           (latitude (coords loc)) (longitude (coords loc)) = Num delta"
  shows "delta = 2 * 6371 * arcsin (sqrt (haversine_a (latitude (coords lastLocation))
           (longitude (coords lastLocation)) (latitude (coords loc)) (longitude (coords loc))))
         \<and> distanceTraveled (watchCallback p tr loc) =
             (if minDelta p < delta \<and> delta < 1 then distanceTraveled tr + delta
              else distanceTraveled tr)
         \<and> lastLocationRef (watchCallback p tr loc) = Some loc
         \<and> minDelta Native = 1 / 100 \<and> minDelta Web = 1 / 1000
         \<and> (delta = 0 \<or> delta = 5000 \<or> (delta = 2 / 1000 \<and> p = Native) \<longrightarrow>
             distanceTraveled (watchCallback p tr loc) = distanceTraveled tr)"
proof -
  have hav: "delta = 2 * 6371 * arcsin (sqrt (haversine_a (latitude (coords lastLocation))
      (longitude (coords lastLocation)) (latitude (coords loc)) (longitude (coords loc))))"
    using assms(2) by (simp add: calculateDistance_haversine)
  have d: "distanceTraveled (watchCallback p tr loc) =
      (if minDelta p < delta \<and> delta < 1 then distanceTraveled tr + delta
       else distanceTraveled tr)"
    using assms by (simp add: watchCallback_distance)
  have inst: "delta = 0 \<or> delta = 5000 \<or> (delta = 2 / 1000 \<and> p = Native) \<Longrightarrow>
      distanceTraveled (watchCallback p tr loc) = distanceTraveled tr"
    using minDelta_pos [of p] by (auto simp: d)
  show ?thesis
    using hav d inst by (simp add: watchCallback_last)
qed

theorem sample_filter_witness:
  "distanceTraveled (watchCallback Web
      \<lparr>currentLocation = None, distanceTraveled = 7, isTracking = True,
       lastLocationRef = Some \<lparr>coords = \<lparr>latitude = 0, longitude = 0\<rparr>, timestamp = 0\<rparr>,
       watcherRef = Some Web\<rparr>
      \<lparr>coords = \<lparr>latitude = 0, longitude = 5000 * 180 / (6371 * pi)\<rparr>, timestamp = 5\<rparr>) = 7
   \<and> lastLocationRef (watchCallback Web
      \<lparr>currentLocation = None, distanceTraveled = 7, isTracking = True,
       lastLocationRef = Some \<lparr>coords = \<lparr>latitude = 0, longitude = 0\<rparr>, timestamp = 0\<rparr>,
       watcherRef = Some Web\<rparr>
      \<lparr>coords = \<lparr>latitude = 0, longitude = 5000 * 180 / (6371 * pi)\<rparr>, timestamp = 5\<rparr>) =
     Some \<lparr>coords = \<lparr>latitude = 0, longitude = 5000 * 180 / (6371 * pi)\<rparr>, timestamp = 5\<rparr>"
proof -
  have "(5000::real) < 6371 * 2" by simp
  also have "(6371::real) * 2 \<le> 6371 * pi" using pi_ge_two by simp
  finally have "calculateDistance 0 0 0 (5000 * 180 / (6371 * pi)) = Num 5000"
    by (intro calculateDistance_equator) simp_all
  then show ?thesis
    using sample_filter [of
        "\<lparr>currentLocation = None, distanceTraveled = 7, isTracking = True,
          lastLocationRef = Some \<lparr>coords = \<lparr>latitude = 0, longitude = 0\<rparr>, timestamp = 0\<rparr>,
          watcherRef = Some Web\<rparr>"
        "\<lparr>coords = \<lparr>latitude = 0, longitude = 0\<rparr>, timestamp = 0\<rparr>"
        "\<lparr>coords = \<lparr>latitude = 0, longitude = 5000 * 180 / (6371 * pi)\<rparr>, timestamp = 5\<rparr>"
        5000 Web]
    by simp
qed

text \<open>
  Claim C7. The cumulative distance of a session starts at 0; a sample leaves it unchanged
  or adds a delta above the (positive) jitter floor and below 1 km; stopping and a failed
  start leave it unchanged. So after any sequence of samples since the start it is not
  negative, and it never decreases while samples are processed.
\<close>

theorem cumulative_distance_invariant:
  "distanceTraveled (fst (startTracking p (Position init) tr)) = 0
   \<and> 0 < minDelta p
   \<and> distanceTraveled (watchCallback p tr loc) - distanceTraveled tr \<in> {0} \<union> {minDelta p <..< 1}
   \<and> distanceTraveled (stopTracking tr) = distanceTraveled tr
   \<and> distanceTraveled (fst (startTracking p Permission_denied tr)) = distanceTraveled tr
   \<and> distanceTraveled (fst (startTracking p Position_error tr)) = distanceTraveled tr
   \<and> 0 \<le> distanceTraveled (feed p (fst (startTracking p (Position init) tr)) xs)
   \<and> distanceTraveled (feed p tr xs) \<le> distanceTraveled (feed p tr (xs @ ys))"
proof -
  have start: "distanceTraveled (fst (startTracking p (Position init) tr)) = 0"
    by (simp add: startTracking_def)
  have nonneg: "0 \<le> distanceTraveled (feed p (fst (startTracking p (Position init) tr)) xs)"
    using feed_mono [of "fst (startTracking p (Position init) tr)" p xs] start by simp
  have mono: "distanceTraveled (feed p tr xs) \<le> distanceTraveled (feed p tr (xs @ ys))"
    by (simp add: feed_append feed_mono)
  have rest: "distanceTraveled (stopTracking tr) = distanceTraveled tr"
    "distanceTraveled (fst (startTracking p Permission_denied tr)) = distanceTraveled tr"
    "distanceTraveled (fst (startTracking p Position_error tr)) = distanceTraveled tr"
    by (simp_all add: stopTracking_def startTracking_def)
  show ?thesis
    using start nonneg mono rest minDelta_pos [of p] watchCallback_step [of p tr loc] by blast
qed

text \<open>
  Claim C9. Reset is idempotent. \<open>resetTracking\<close> zeroes the cumulative distance and
  clears the current and the last sampled position, \<open>resetMeter\<close> zeroes the distance and
  the fare shown, and the reset of the meter screen zeroes the elapsed time and resets the
  meter; a second call of each changes nothing.
\<close>

theorem reset_idempotent:
  "resetTracking (resetTracking tr) = resetTracking tr
   \<and> distanceTraveled (resetTracking tr) = 0
   \<and> lastLocationRef (resetTracking tr) = None
   \<and> currentLocation (resetTracking tr) = None
   \<and> resetMeter (resetMeter h) = resetMeter h
   \<and> distance (resetMeter h) = Num 0
   \<and> fare (resetMeter h) = Num 0
   \<and> isNight (resetMeter h) = False
   \<and> handleResetMeter (handleResetMeter m) = handleResetMeter m
   \<and> elapsedTime (handleResetMeter m) = 0
   \<and> distance (calculator (handleResetMeter m)) = Num 0
   \<and> fare (calculator (handleResetMeter m)) = Num 0"
  by (simp add: resetTracking_def resetMeter_def handleResetMeter_def stopTracking_def)

end
